theory Spec2Isabelle
  imports Complex_Main "HOL-Library.Log_Nat"
begin

section \<open>JavaScript values\<close>

subsection \<open>Numbers\<close>

text \<open>
  A JavaScript number is an IEEE 754 double. A finite double is modelled by its exact
  mathematical value (\<open>Fin\<close>); the two infinities and NaN are values of their own.
  Negative zero is identified with zero: the program only subtracts, tests for falsiness
  and prints numbers, and none of the three tells the two zeros apart.
\<close>

datatype jsnum = Fin real | PosInf | NegInf | NaN

definition pow_int :: "real \<Rightarrow> int \<Rightarrow> real" where
  "pow_int b e = (if 0 \<le> e then b ^ nat e else 1 / b ^ nat (- e))"

text \<open>\<open>ilog b x\<close> is the integer \<open>e\<close> with \<open>b ^ e \<le> x < b ^ (e + 1)\<close>, for \<open>0 < x\<close>.\<close>

definition ilog :: "nat \<Rightarrow> real \<Rightarrow> int" where
  "ilog b x = (if 1 \<le> x then int (floorlog b (nat \<lfloor>x\<rfloor>)) - 1
               else - int (floorlog b (nat (\<lceil>1 / x\<rceil> - 1))))"

definition round_half_even :: "real \<Rightarrow> int" where
  "round_half_even x =
     (let f = \<lfloor>x\<rfloor>; r = x - of_int f
      in if r < 1 / 2 then f else if 1 / 2 < r then f + 1 else if even f then f else f + 1)"

definition signed_inf :: "real \<Rightarrow> jsnum" where
  "signed_inf q = (if 0 < q then PosInf else NegInf)"

text \<open>
  Rounding of an exact value to the nearest double, ties to even: 53 significant bits,
  subnormals down to \<open>2 ^ -1074\<close>, overflow to an infinity from \<open>2 ^ 1024 - 2 ^ 970\<close> on.
\<close>

definition round_double :: "real \<Rightarrow> jsnum" where
  "round_double q =
     (if q = 0 then Fin 0
      else let e = ilog 2 \<bar>q\<bar>
           in if 1023 < e then signed_inf q
              else let k = max (e - 52) (- 1074);
                       n = round_half_even (\<bar>q\<bar> / pow_int 2 k)
                   in if e = 1023 \<and> n = 2 ^ 53 then signed_inf q
                      else Fin (sgn q * of_int n * pow_int 2 k))"

text \<open>The binary \<open>-\<close> of the language on two numbers.\<close>

fun js_sub :: "jsnum \<Rightarrow> jsnum \<Rightarrow> jsnum" where
  "js_sub NaN _ = NaN"
| "js_sub _ NaN = NaN"
| "js_sub PosInf PosInf = NaN"
| "js_sub NegInf NegInf = NaN"
| "js_sub PosInf _ = PosInf"
| "js_sub NegInf _ = NegInf"
| "js_sub (Fin _) PosInf = NegInf"
| "js_sub (Fin _) NegInf = PosInf"
| "js_sub (Fin a) (Fin b) = round_double (a - b)"

subsection \<open>Numbers as text\<close>

definition digit :: "nat \<Rightarrow> char" where
  "digit d = ''0123456789'' ! d"

function digits_of :: "nat \<Rightarrow> string" where
  "digits_of n = (if n < 10 then [digit n] else digits_of (n div 10) @ [digit (n mod 10)])"
  by pat_completeness auto
termination
  by (relation "measure id") auto

declare digits_of.simps [simp del]

text \<open>
  \<open>Number::toString\<close> of ECMAScript (radix 10) prints the shortest digit string \<open>s\<close> (of
  \<open>k\<close> digits, with decimal exponent \<open>n\<close>) that reads back as the same double; among several
  of that length it takes the one closest to the number, the even one on a tie.
  \<open>digit_candidates x k\<close> lists the pairs \<open>(s, n)\<close> of \<open>k\<close> digits that read back as \<open>x\<close>.
\<close>

definition digit_candidates :: "real \<Rightarrow> nat \<Rightarrow> (int \<times> int) list" where
  "digit_candidates x k =
     (let m = ilog 10 x + 1
      in filter
           (\<lambda>(s, n). 10 ^ (k - 1) \<le> s \<and> s < 10 ^ k \<and>
                     round_double (of_int s * pow_int 10 (n - int k)) = Fin x)
           (concat (map (\<lambda>n. let f = \<lfloor>x / pow_int 10 (n - int k)\<rfloor> in [(f, n), (f + 1, n)])
                        [m, m + 1])))"

definition closer :: "real \<Rightarrow> nat \<Rightarrow> int \<times> int \<Rightarrow> int \<times> int \<Rightarrow> int \<times> int" where
  "closer x k c d =
     (let dc = \<bar>of_int (fst c) * pow_int 10 (snd c - int k) - x\<bar>;
          dd = \<bar>of_int (fst d) * pow_int 10 (snd d - int k) - x\<bar>
      in if dd < dc \<or> (dd = dc \<and> even (fst d) \<and> odd (fst c)) then d else c)"

function shortest_digits :: "real \<Rightarrow> nat \<Rightarrow> int \<times> int" where
  "shortest_digits x k =
     (case digit_candidates x k of
        c # cs \<Rightarrow> foldl (closer x k) c cs
      | [] \<Rightarrow> if 17 \<le> k then (round_half_even (x / pow_int 10 (ilog 10 x + 1 - int k)), ilog 10 x + 1)
              else shortest_digits x (Suc k))"
  by pat_completeness auto
termination
  by (relation "measure (\<lambda>(x, k). 17 - k)") auto

declare shortest_digits.simps [simp del]

text \<open>The number of digits \<open>k\<close> of the chosen \<open>s\<close> is the length of its digit string.\<close>

definition positive_to_string :: "real \<Rightarrow> string" where
  "positive_to_string x =
     (let (s, n) = shortest_digits x 1;
          ds = digits_of (nat s);
          k = int (length ds)
      in if k \<le> n \<and> n \<le> 21 then ds @ replicate (nat (n - k)) CHR ''0''
         else if 0 < n \<and> n \<le> 21 then take (nat n) ds @ ''.'' @ drop (nat n) ds
         else if - 6 < n \<and> n \<le> 0 then ''0.'' @ replicate (nat (- n)) CHR ''0'' @ ds
         else (if k = 1 then ds else take 1 ds @ ''.'' @ drop 1 ds) @ ''e''
              @ (if n - 1 < 0 then ''-'' else ''+'') @ digits_of (nat \<bar>n - 1\<bar>))"

definition NumberToString :: "jsnum \<Rightarrow> string" where
  "NumberToString x =
     (case x of
        NaN \<Rightarrow> ''NaN''
      | PosInf \<Rightarrow> ''Infinity''
      | NegInf \<Rightarrow> ''-Infinity''
      | Fin q \<Rightarrow> if q = 0 then ''0''
                 else if q < 0 then ''-'' @ positive_to_string (- q)
                 else positive_to_string q)"

text \<open>\<open>Number.prototype.toFixed(f)\<close>, for \<open>0 \<le> f \<le> 100\<close>.\<close>

definition toFixed :: "jsnum \<Rightarrow> nat \<Rightarrow> string" where
  "toFixed x f =
     (case x of
        Fin q \<Rightarrow>
          if 10 ^ 21 \<le> \<bar>q\<bar> then NumberToString x
          else let n = nat \<lfloor>\<bar>q\<bar> * 10 ^ f + 1 / 2\<rfloor>;
                   m = digits_of n;
                   m = (if length m \<le> f then replicate (f + 1 - length m) CHR ''0'' @ m else m);
                   m = (if f \<noteq> 0 then take (length m - f) m @ ''.'' @ drop (length m - f) m else m)
               in (if q < 0 then ''-'' else '''') @ m
      | _ \<Rightarrow> NumberToString x)"

subsection \<open>Strings\<close>

text \<open>
  A string is the list of its code units. Upper-casing is computed here for the ASCII
  code units; for any other code unit it is the runtime's Unicode table, a parameter
  (\<open>upper_other\<close> of the world below).
\<close>

fun join :: "string \<Rightarrow> string list \<Rightarrow> string" where
  "join sep [] = []"
| "join sep [x] = x"
| "join sep (x # y # ys) = x @ sep @ join sep (y # ys)"

text \<open>\<open>s.split(c)\<close> for a separator of one code unit: never an empty array.\<close>

fun split :: "char \<Rightarrow> string \<Rightarrow> string list" where
  "split c [] = [[]]"
| "split c (x # xs) =
     (if x = c then [] # split c xs
      else (case split c xs of w # ws \<Rightarrow> (x # w) # ws | [] \<Rightarrow> [[x]]))"

definition upper_ascii :: "char \<Rightarrow> char" where
  "upper_ascii c =
     (case map_of (zip ''abcdefghijklmnopqrstuvwxyz'' ''ABCDEFGHIJKLMNOPQRSTUVWXYZ'') c of
        Some u \<Rightarrow> u
      | None \<Rightarrow> c)"

definition toUpperCase :: "(char \<Rightarrow> string) \<Rightarrow> string \<Rightarrow> string" where
  "toUpperCase other s = concat (map (\<lambda>c. if digit7 c then other c else [upper_ascii c]) s)"

subsection \<open>Values read from JSON\<close>

text \<open>
  What \<open>JSON.parse\<close> returns, and \<open>undefined\<close> for what is not there. An object is the
  list of its properties, each key once.
\<close>

datatype js =
    JUndefined
  | JNull
  | JBool bool
  | JNum jsnum
  | JStr string
  | JArr "js list"
  | JObj "(string \<times> js) list"

text \<open>Truthiness, as \<open>if (v)\<close>, \<open>!v\<close> and \<open>v && w\<close> test it.\<close>

fun truthy :: "js \<Rightarrow> bool" where
  "truthy JUndefined = False"
| "truthy JNull = False"
| "truthy (JBool b) = b"
| "truthy (JNum n) = (n \<noteq> Fin 0 \<and> n \<noteq> NaN)"
| "truthy (JStr s) = (s \<noteq> [])"
| "truthy (JArr _) = True"
| "truthy (JObj _) = True"

text \<open>
  Reading a property of a value that is neither \<open>null\<close> nor \<open>undefined\<close>. The program
  reads four keys (\<open>github-copilot-enterprise\<close>, \<open>github-copilot\<close>, \<open>access\<close>,
  \<open>enterpriseUrl\<close>); none of them is a property of a boolean, a number, a string or an
  array, so only an object can answer with something else than \<open>undefined\<close>.
\<close>

fun js_get :: "js \<Rightarrow> string \<Rightarrow> js" where
  "js_get (JObj kvs) k = (case map_of kvs k of Some v \<Rightarrow> v | None \<Rightarrow> JUndefined)"
| "js_get _ k = JUndefined"

text \<open>String conversion, as a template literal applies it to an interpolated value.\<close>

fun js_ToString :: "js \<Rightarrow> string" where
  "js_ToString JUndefined = ''undefined''"
| "js_ToString JNull = ''null''"
| "js_ToString (JBool b) = (if b then ''true'' else ''false'')"
| "js_ToString (JNum n) = NumberToString n"
| "js_ToString (JStr s) = s"
| "js_ToString (JArr vs) =
     join '','' (map (\<lambda>v. if v = JUndefined \<or> v = JNull then [] else js_ToString v) vs)"
| "js_ToString (JObj _) = ''[object Object]''"

section \<open>The program's data\<close>

text \<open>An exception is represented by the message of the \<open>Error\<close> object thrown.\<close>

datatype js_error = Error (message: string)

record IQuotaSnapshotData =
  entitlement :: jsnum
  overage_count :: jsnum
  overage_permitted :: bool
  percent_remaining :: jsnum
  remaining :: jsnum
  unlimited :: bool

record quota_snapshots_t =
  chat :: "IQuotaSnapshotData option"
  completions :: "IQuotaSnapshotData option"
  premium_interactions :: "IQuotaSnapshotData option"

record IEntitlementsData =
  copilot_plan :: string
  quota_snapshots :: "quota_snapshots_t option"

record IUsageResult =
  plan :: string
  used :: jsnum
  total_r :: jsnum
  percentUsed :: jsnum
  unlimited_r :: bool

datatype auth_source = enterprise | public

record IToolArgs =
  authSource :: "auth_source option"

record credentials =
  token :: js
  enterpriseUrl :: js
  source :: string

section \<open>The world outside the program\<close>

text \<open>The fields of a parsed \<open>URL\<close> object that the program reads.\<close>

record url =
  protocol :: string
  hostname :: string
  port :: string
  pathname :: string
  search :: string

record request_headers =
  Authorization :: string
  Accept :: string
  User_Agent :: string

record request_options =
  opt_hostname :: string
  opt_port :: string
  opt_path :: string
  opt_method :: string
  opt_headers :: request_headers

text \<open>
  What becomes of one request: an \<open>error\<close> event of the request (or an exception of
  \<open>request\<close> itself), a response that has ended, with its status code, its status
  message and the concatenation of its chunks, or neither of the two events: a server
  that never answers, or a response cut off after its headers, which ends in an event
  the program does not listen to.
\<close>

datatype http_outcome =
    RequestError js_error
  | Response nat string string
  | NeverSettles

text \<open>
  The file at \<open>~/.local/share/opencode/auth.json\<close>: missing (\<open>existsSync\<close> is false),
  there but failing to be read, or read, with what \<open>JSON.parse\<close> makes of its text (a
  syntax error or a value).
\<close>

datatype auth_file =
    Missing
  | Unreadable js_error
  | Content "js_error + js"

text \<open>
  Everything the program gets from its environment and from the runtime's library:
  the variable \<open>GITHUB_TOKEN\<close>, the credential file, the \<open>URL\<close> constructor, the network
  (as a function of the request made), \<open>JSON.parse\<close> on a response body read at type
  \<open>IEntitlementsData\<close>, the message of the \<open>TypeError\<close> for reading a property of \<open>null\<close>,
  and the upper-casing of code units beyond ASCII.
\<close>

record world =
  GITHUB_TOKEN :: "string option"
  authFile :: auth_file
  URL :: "string \<Rightarrow> js_error + url"
  request :: "bool \<Rightarrow> request_options \<Rightarrow> http_outcome"
  JSON_parse :: "string \<Rightarrow> js_error + IEntitlementsData"
  null_read_message :: "string \<Rightarrow> string"
  upper_other :: "char \<Rightarrow> string"

text \<open>The tool context: whether \<open>context?.client?.app?.log\<close> is there.\<close>

record tool_context =
  has_log :: bool

text \<open>
  The effects of a run, in order: the calls of the log sink, the two accesses to the
  credential file, and the requests sent (\<open>True\<close> for \<open>https\<close>).
\<close>

datatype event =
    Log string string
  | ExistsSync
  | ReadFileSync
  | HttpRequest bool request_options

text \<open>
  The promise an asynchronous function returns, as the caller that awaits it sees it:
  fulfilled with a value, rejected with an error, or pending for ever.
\<close>

datatype 'a promise = Fulfilled 'a | Rejected js_error | Pending

type_synonym 'a io = "event list \<times> 'a promise"

definition io_return :: "'a \<Rightarrow> 'a io" where
  "io_return x = ([], Fulfilled x)"

definition io_throw :: "js_error \<Rightarrow> 'a io" where
  "io_throw e = ([], Rejected e)"

definition io_emit :: "event \<Rightarrow> unit io" where
  "io_emit ev = ([ev], Fulfilled ())"

definition io_lift :: "js_error + 'a \<Rightarrow> 'a io" where
  "io_lift r = ([], case r of Inl e \<Rightarrow> Rejected e | Inr x \<Rightarrow> Fulfilled x)"

definition io_pending :: "'a io" where
  "io_pending = ([], Pending)"

definition io_bind :: "'a io \<Rightarrow> ('a \<Rightarrow> 'b io) \<Rightarrow> 'b io" where
  "io_bind m f =
     (case m of
        (tr, Rejected e) \<Rightarrow> (tr, Rejected e)
      | (tr, Pending) \<Rightarrow> (tr, Pending)
      | (tr, Fulfilled x) \<Rightarrow> (case f x of (tr', r) \<Rightarrow> (tr @ tr', r)))"

text \<open>
  A \<open>try\<close> block with its \<open>catch\<close>: the handler's effects follow those of the body.
  A body that stays pending never reaches the handler.
\<close>

definition io_catch :: "'a io \<Rightarrow> (js_error \<Rightarrow> event list \<times> 'a) \<Rightarrow> 'a io" where
  "io_catch m h =
     (case m of
        (tr, Fulfilled x) \<Rightarrow> (tr, Fulfilled x)
      | (tr, Rejected e) \<Rightarrow> (case h e of (tr', x) \<Rightarrow> (tr @ tr', Fulfilled x))
      | (tr, Pending) \<Rightarrow> (tr, Pending))"

text \<open>\<open>authData[k]\<close> on the parsed file: reading a property of \<open>null\<close> throws.\<close>

definition js_member :: "world \<Rightarrow> js \<Rightarrow> string \<Rightarrow> js_error + js" where
  "js_member w v k =
     (if v = JNull \<or> v = JUndefined then Inl (Error (null_read_message w k))
      else Inr (js_get v k))"

section \<open>The tool\<close>

definition capitalizePlanName :: "world \<Rightarrow> string \<Rightarrow> string" where
  "capitalizePlanName w plan_id =
     join '' ''
       (map (\<lambda>word. toUpperCase (upper_other w) (take 1 word) @ drop 1 word)
            (split CHR ''_'' plan_id))"

text \<open>
  The status code of a response is a natural number, printed in decimal. The promise is
  settled at most once: at the end of the response, resolved with the body on a status
  from 200 to 299 and rejected otherwise; at an error of the request, rejected with it.
  No other event settles it, and no timeout is set.
\<close>

definition fetch_options :: "url \<Rightarrow> js \<Rightarrow> request_options" where
  "fetch_options parsedUrl tok =
     \<lparr>opt_hostname = hostname parsedUrl,
      opt_port = port parsedUrl,
      opt_path = pathname parsedUrl @ search parsedUrl,
      opt_method = ''GET'',
      opt_headers =
        \<lparr>Authorization = ''Bearer '' @ js_ToString tok,
         Accept = ''application/json'',
         User_Agent = ''OpenCode-Copilot-Usage-Tool''\<rparr>\<rparr>"

definition fetchData :: "world \<Rightarrow> string \<Rightarrow> js \<Rightarrow> string io" where
  "fetchData w url_text tok =
     io_bind (io_lift (URL w url_text)) (\<lambda>parsedUrl.
       let options = fetch_options parsedUrl tok;
           secure = (protocol parsedUrl = ''https:'')
       in io_bind (io_emit (HttpRequest secure options)) (\<lambda>_.
            case request w secure options of
              RequestError e \<Rightarrow> io_throw e
            | Response statusCode statusMessage body \<Rightarrow>
                if statusCode \<noteq> 0 \<and> 200 \<le> statusCode \<and> statusCode < 300 then io_return body
                else io_throw (Error (''HTTP '' @ digits_of statusCode @ '': '' @ statusMessage))
            | NeverSettles \<Rightarrow> io_pending))"

definition getApiUrl :: "world \<Rightarrow> js \<Rightarrow> js_error + string" where
  "getApiUrl w enterpriseUrl_arg =
     (if \<not> truthy enterpriseUrl_arg then Inr ''https://api.github.com/copilot_internal/user''
      else case URL w (''https://'' @ js_ToString enterpriseUrl_arg) of
             Inl e \<Rightarrow> Inl e
           | Inr parsedUrl \<Rightarrow>
               Inr (protocol parsedUrl @ ''//api.'' @ hostname parsedUrl
                    @ (if port parsedUrl \<noteq> [] then '':'' @ port parsedUrl else [])
                    @ ''/copilot_internal/user''))"

text \<open>
  A failure of the log sink is swallowed and the call returns nothing, so all that is
  left of it is the attempt. The structured \<open>extra\<close> argument is not recorded.
\<close>

definition logMessage :: "tool_context \<Rightarrow> string \<Rightarrow> string \<Rightarrow> unit io" where
  "logMessage ctx level msg = (if has_log ctx then io_emit (Log level msg) else io_return ())"

text \<open>\<open>auth && auth.access\<close>, where it is tested.\<close>

definition has_access :: "js \<Rightarrow> bool" where
  "has_access auth = (truthy auth \<and> truthy (js_get auth ''access''))"

text \<open>The record returned for an entry of the credential file.\<close>

definition auth_entry :: "js \<Rightarrow> string \<Rightarrow> credentials" where
  "auth_entry selectedAuth src =
     \<lparr>token = js_get selectedAuth ''access'',
      enterpriseUrl = js_get selectedAuth ''enterpriseUrl'',
      source = src\<rparr>"

definition getAuthToken :: "auth_source option \<Rightarrow> tool_context \<Rightarrow> world \<Rightarrow> credentials io" where
  "getAuthToken preferredSource ctx w =
     io_bind (logMessage ctx ''debug'' ''Getting authentication token'') (\<lambda>_.
       let envToken = (case GITHUB_TOKEN w of None \<Rightarrow> JUndefined | Some t \<Rightarrow> JStr t)
       in if truthy envToken then
            io_bind (logMessage ctx ''info'' ''Using token from GITHUB_TOKEN environment variable'') (\<lambda>_.
              io_return \<lparr>token = envToken, enterpriseUrl = JUndefined, source = ''env''\<rparr>)
          else
            io_bind (io_emit ExistsSync) (\<lambda>_.
              case authFile w of
                Missing \<Rightarrow>
                  io_throw (Error ''Authentication not found. Set GITHUB_TOKEN env var or authenticate with OpenCode'')
              | Unreadable e \<Rightarrow> io_bind (io_emit ReadFileSync) (\<lambda>_. io_throw e)
              | Content parsed \<Rightarrow>
                  io_bind (io_emit ReadFileSync) (\<lambda>_.
                  io_bind (io_lift parsed) (\<lambda>authData.
                  io_bind (io_lift (js_member w authData ''github-copilot-enterprise'')) (\<lambda>enterpriseAuth.
                  io_bind (io_lift (js_member w authData ''github-copilot'')) (\<lambda>publicAuth.
                    let hasEnterprise = has_access enterpriseAuth;
                        hasPublic = has_access publicAuth
                    in if \<not> hasEnterprise \<and> \<not> hasPublic then
                         io_throw (Error ''GitHub Copilot authentication not found in auth.json'')
                       else if hasEnterprise \<and> hasPublic then
                         let src = (if preferredSource = Some enterprise then ''enterprise'' else ''public'');
                             selectedAuth = (if src = ''enterprise'' then enterpriseAuth else publicAuth)
                         in io_bind (logMessage ctx ''info''
                                      (''Using '' @ src @ '' authentication (both available, default: public)'')) (\<lambda>_.
                              io_return (auth_entry selectedAuth src))
                       else
                         let src = (if hasEnterprise then ''enterprise'' else ''public'');
                             selectedAuth = (if hasEnterprise then enterpriseAuth else publicAuth)
                         in io_bind (logMessage ctx ''info''
                                      (''Using '' @ src @ '' authentication (only one available)'')) (\<lambda>_.
                              io_return (auth_entry selectedAuth src))))))))"

definition fetchUsageData :: "tool_context \<Rightarrow> IToolArgs \<Rightarrow> world \<Rightarrow> IUsageResult io" where
  "fetchUsageData ctx args w =
     io_bind (getAuthToken (authSource args) ctx w) (\<lambda>cred.
     io_bind (logMessage ctx ''debug'' ''Fetching usage data'') (\<lambda>_.
     io_bind (io_lift (getApiUrl w (enterpriseUrl cred))) (\<lambda>apiUrl.
     io_bind (fetchData w apiUrl (token cred)) (\<lambda>responseText.
     io_bind (io_lift (JSON_parse w responseText)) (\<lambda>entitlements.
       let planName = capitalizePlanName w (copilot_plan entitlements)
       in case (case quota_snapshots entitlements of
                  None \<Rightarrow> None
                | Some snapshots \<Rightarrow> premium_interactions snapshots) of
            None \<Rightarrow> io_throw (Error (''Premium requests not available for '' @ planName @ '' plan''))
          | Some quota \<Rightarrow>
              if unlimited quota then
                io_return \<lparr>plan = planName, used = Fin 0, total_r = Fin 0, percentUsed = Fin 0,
                           unlimited_r = True\<rparr>
              else
                let used_v = js_sub (entitlement quota) (remaining quota);
                    percentUsed_v = js_sub (Fin 100) (percent_remaining quota)
                in io_return \<lparr>plan = planName, used = used_v, total_r = entitlement quota,
                              percentUsed = percentUsed_v, unlimited_r = False\<rparr>)))))"

definition formatMarkdown :: "IUsageResult \<Rightarrow> string" where
  "formatMarkdown result =
     (if unlimited_r result then
        ''# Copilot '' @ plan result @ '' Usage'' @ [CHR 0x0A, CHR 0x0A] @ ''Premium requests: unlimited''
      else
        ''# Copilot '' @ plan result @ '' Usage'' @ [CHR 0x0A, CHR 0x0A] @ ''Premium requests: ''
        @ NumberToString (used result) @ ''/'' @ NumberToString (total_r result)
        @ '' ('' @ toFixed (percentUsed result) 2 @ ''%)'')"

text \<open>
  Every error thrown here is an \<open>Error\<close> object, so the handler takes its message. The
  handler returns a text, so the promise of \<open>execute\<close> is fulfilled with a text or stays
  pending with the request.
\<close>

definition execute :: "IToolArgs \<Rightarrow> tool_context \<Rightarrow> world \<Rightarrow> string io" where
  "execute args ctx w =
     (case io_catch
             (io_bind (fetchUsageData ctx args w) (\<lambda>result.
              io_bind (logMessage ctx ''info'' ''Successfully fetched usage data'') (\<lambda>_.
                io_return (formatMarkdown result))))
             (\<lambda>error.
                let errorMessage = message error
                in (fst (logMessage ctx ''error'' ''Failed to fetch usage data''),
                    ''# Copilot Usage Error'' @ [CHR 0x0A, CHR 0x0A] @ ''Error: '' @ errorMessage)) of
        (tr, settled) \<Rightarrow> (fst (logMessage ctx ''debug'' ''Executing copilot-usage tool'') @ tr, settled))"

text \<open>The requests among the effects of a run.\<close>

definition requests_of :: "event list \<Rightarrow> event list" where
  "requests_of tr = filter (\<lambda>ev. case ev of HttpRequest _ _ \<Rightarrow> True | _ \<Rightarrow> False) tr"

text \<open>The accesses to the credential file among the effects of a run.\<close>

definition file_accesses_of :: "event list \<Rightarrow> event list" where
  "file_accesses_of tr = filter (\<lambda>ev. ev = ExistsSync \<or> ev = ReadFileSync) tr"

section \<open>Example worlds\<close>

text \<open>
  A machine with no token, no credential file and no network, whose \<open>URL\<close> constructor
  answers as the WHATWG parser does on the two addresses below and is not asked about
  any other.
\<close>

definition example_URL :: "string \<Rightarrow> js_error + url" where
  "example_URL s =
     (if s = ''https://api.github.com/copilot_internal/user'' then
        Inr \<lparr>protocol = ''https:'', hostname = ''api.github.com'', port = [],
             pathname = ''/copilot_internal/user'', search = []\<rparr>
      else if s = ''https://github.example.com'' then
        Inr \<lparr>protocol = ''https:'', hostname = ''github.example.com'', port = [],
             pathname = ''/'', search = []\<rparr>
      else Inl (Error ''Invalid URL''))"

definition bare_world :: world where
  "bare_world =
     \<lparr>GITHUB_TOKEN = None,
      authFile = Missing,
      URL = example_URL,
      request = (\<lambda>_ _. RequestError (Error ''getaddrinfo ENOTFOUND'')),
      JSON_parse = (\<lambda>_. Inl (Error ''Unexpected end of JSON input'')),
      null_read_message = (\<lambda>k. ''null is not an object''),
      upper_other = (\<lambda>c. [c])\<rparr>"

text \<open>A credential file with both entries, the organizational one with its host.\<close>

definition both_entries :: js where
  "both_entries =
     JObj [(''github-copilot-enterprise'',
              JObj [(''access'', JStr ''ent-secret''), (''enterpriseUrl'', JStr ''github.example.com'')]),
           (''github-copilot'', JObj [(''access'', JStr ''pub-secret'')])]"

text \<open>A machine with a token in its environment that the service rejects.\<close>

definition unauthorized_world :: world where
  "unauthorized_world =
     bare_world\<lparr>GITHUB_TOKEN := Some ''ghp_token'',
                request := (\<lambda>_ _. Response 401 ''Unauthorized'' [])\<rparr>"


text \<open>
  Two credential files with one entry each: a standard entry that carries a host, and
  an organizational entry that carries none.
\<close>

definition public_with_host :: js where
  "public_with_host =
     JObj [(''github-copilot'',
              JObj [(''access'', JStr ''pub-secret''), (''enterpriseUrl'', JStr ''github.example.com'')])]"

definition enterprise_without_host :: js where
  "enterprise_without_host =
     JObj [(''github-copilot-enterprise'', JObj [(''access'', JStr ''ent-secret'')])]"

text \<open>
  Three response bodies, with what \<open>JSON.parse\<close> reads in them, and a machine with a
  token in its environment to which the service answers 200 with a given body.
\<close>

definition json_field :: "string \<Rightarrow> string \<Rightarrow> string" where
  "json_field k v = [CHR 0x22] @ k @ [CHR 0x22] @ '':'' @ v"

definition json_text :: "string \<Rightarrow> string" where
  "json_text v = [CHR 0x22] @ v @ [CHR 0x22]"

definition free_plan_body :: string where
  "free_plan_body = ''{'' @ json_field ''copilot_plan'' (json_text ''individual_pro'') @ ''}''"

definition pro_plan_body :: string where
  "pro_plan_body =
     ''{'' @ json_field ''copilot_plan'' (json_text ''pro'') @ '',''
     @ json_field ''quota_snapshots''
         (''{'' @ json_field ''premium_interactions''
            (''{'' @ json_field ''entitlement'' ''200'' @ '',''
             @ json_field ''overage_count'' ''0'' @ '',''
             @ json_field ''overage_permitted'' ''false'' @ '',''
             @ json_field ''percent_remaining'' ''25.0'' @ '',''
             @ json_field ''remaining'' ''50'' @ '',''
             @ json_field ''unlimited'' ''false'' @ ''}'') @ ''}'') @ ''}''"

definition unlimited_plan_body :: string where
  "unlimited_plan_body =
     ''{'' @ json_field ''copilot_plan'' (json_text ''enterprise'') @ '',''
     @ json_field ''quota_snapshots''
         (''{'' @ json_field ''premium_interactions''
            (''{'' @ json_field ''entitlement'' ''300'' @ '',''
             @ json_field ''overage_count'' ''0'' @ '',''
             @ json_field ''overage_permitted'' ''false'' @ '',''
             @ json_field ''percent_remaining'' ''12.5'' @ '',''
             @ json_field ''remaining'' ''7'' @ '',''
             @ json_field ''unlimited'' ''true'' @ ''}'') @ ''}'') @ ''}''"

definition example_JSON_parse :: "string \<Rightarrow> js_error + IEntitlementsData" where
  "example_JSON_parse s =
     (if s = free_plan_body then
        Inr \<lparr>copilot_plan = ''individual_pro'', quota_snapshots = None\<rparr>
      else if s = pro_plan_body then
        Inr \<lparr>copilot_plan = ''pro'',
             quota_snapshots = Some
               \<lparr>chat = None, completions = None,
                premium_interactions = Some
                  \<lparr>entitlement = Fin 200, overage_count = Fin 0, overage_permitted = False,
                   percent_remaining = Fin 25, remaining = Fin 50, unlimited = False\<rparr>\<rparr>\<rparr>
      else if s = unlimited_plan_body then
        Inr \<lparr>copilot_plan = ''enterprise'',
             quota_snapshots = Some
               \<lparr>chat = None, completions = None,
                premium_interactions = Some
                  \<lparr>entitlement = Fin 300, overage_count = Fin 0, overage_permitted = False,
                   percent_remaining = Fin (25 / 2), remaining = Fin 7, unlimited = True\<rparr>\<rparr>\<rparr>
      else Inl (Error ''Unexpected end of JSON input''))"

definition serving_world :: "string \<Rightarrow> world" where
  "serving_world body =
     bare_world\<lparr>GITHUB_TOKEN := Some ''ghp_token'',
                request := (\<lambda>_ _. Response 200 ''OK'' body),
                JSON_parse := example_JSON_parse\<rparr>"

section \<open>Running effects in sequence\<close>

lemma io_bind_Rejected [simp]: "io_bind (tr, Rejected e) f = (tr, Rejected e)"
  by (simp add: io_bind_def)

lemma io_bind_Pending [simp]: "io_bind (tr, Pending) f = (tr, Pending)"
  by (simp add: io_bind_def)

lemma io_bind_Fulfilled [simp]: "io_bind (tr, Fulfilled x) f = (tr @ fst (f x), snd (f x))"
  by (simp add: io_bind_def split: prod.splits)

lemma io_bind_lift_Inl [simp]: "io_bind (io_lift (Inl e)) f = ([], Rejected e)"
  by (simp add: io_lift_def)

lemma io_bind_lift_Inr [simp]: "io_bind (io_lift (Inr x)) f = f x"
  by (simp add: io_lift_def)

lemma io_bind_emit [simp]: "io_bind (io_emit ev) f = (ev # fst (f ()), snd (f ()))"
  by (simp add: io_emit_def)

lemma io_bind_throw [simp]: "io_bind (io_throw e) f = ([], Rejected e)"
  by (simp add: io_throw_def)

lemma io_bind_return [simp]: "io_bind (io_return x) f = f x"
  by (simp add: io_return_def)

lemma io_bind_logMessage [simp]:
  "io_bind (logMessage ctx level msg) f =
     ((if has_log ctx then [Log level msg] else []) @ fst (f ()), snd (f ()))"
  by (simp add: logMessage_def)

lemma snd_io_bind:
  "snd (io_bind m f) =
     (case snd m of Rejected e \<Rightarrow> Rejected e | Pending \<Rightarrow> Pending | Fulfilled x \<Rightarrow> snd (f x))"
  by (cases m) (simp add: io_bind_def split: promise.splits prod.splits)

lemma fst_io_bind:
  "fst (io_bind m f) = fst m @ (case snd m of Fulfilled x \<Rightarrow> fst (f x) | _ \<Rightarrow> [])"
  by (cases m) (simp add: io_bind_def split: promise.splits prod.splits)

lemma fst_logMessage: "fst (logMessage ctx level msg) = (if has_log ctx then [Log level msg] else [])"
  by (simp add: logMessage_def io_emit_def io_return_def)

lemma snd_logMessage [simp]: "snd (logMessage ctx level msg) = Fulfilled ()"
  by (simp add: logMessage_def io_emit_def io_return_def)

lemma io_bind_lift:
  "io_bind (io_lift r) f = (case r of Inl e \<Rightarrow> ([], Rejected e) | Inr x \<Rightarrow> f x)"
  by (cases r) simp_all

lemma snd_io_lift [simp]:
  "snd (io_lift r) = (case r of Inl e \<Rightarrow> Rejected e | Inr x \<Rightarrow> Fulfilled x)"
  by (simp add: io_lift_def)

section \<open>The shape of a run\<close>

lemma fetchData_trace:
  "fst (fetchData w url_text tok) =
     (case URL w url_text of
        Inl e \<Rightarrow> []
      | Inr u \<Rightarrow> [HttpRequest (protocol u = ''https:'') (fetch_options u tok)])"
  by (simp add: fetchData_def Let_def io_throw_def io_return_def io_pending_def
      split: sum.splits http_outcome.splits)

lemma fetchData_result:
  "snd (fetchData w url_text tok) =
     (case URL w url_text of
        Inl e \<Rightarrow> Rejected e
      | Inr u \<Rightarrow>
          (case request w (protocol u = ''https:'') (fetch_options u tok) of
             RequestError e \<Rightarrow> Rejected e
           | Response statusCode statusMessage body \<Rightarrow>
               if statusCode \<noteq> 0 \<and> 200 \<le> statusCode \<and> statusCode < 300 then Fulfilled body
               else Rejected (Error (''HTTP '' @ digits_of statusCode @ '': '' @ statusMessage))
           | NeverSettles \<Rightarrow> Pending))"
  by (auto simp: fetchData_def Let_def io_throw_def io_return_def io_pending_def
      split: sum.splits http_outcome.splits)

lemma fetchUsageData_trace:
  "fst (fetchUsageData ctx args w) =
     fst (getAuthToken (authSource args) ctx w)
     @ (case snd (getAuthToken (authSource args) ctx w) of
          Fulfilled cred \<Rightarrow>
            (if has_log ctx then [Log ''debug'' ''Fetching usage data''] else [])
            @ (case getApiUrl w (enterpriseUrl cred) of
                 Inl e \<Rightarrow> []
               | Inr apiUrl \<Rightarrow> fst (fetchData w apiUrl (token cred)))
        | _ \<Rightarrow> [])"
  unfolding fetchUsageData_def
  apply (cases "getAuthToken (authSource args) ctx w")
  apply (simp add: fst_io_bind snd_io_bind io_lift_def io_throw_def io_return_def Let_def
      split: sum.splits option.splits promise.splits)
  done

lemma fetchUsageData_error:
  "snd (getAuthToken (authSource args) ctx w) = Rejected e \<Longrightarrow> snd (fetchUsageData ctx args w) = Rejected e"
  "snd (getAuthToken (authSource args) ctx w) = Fulfilled cred \<Longrightarrow> getApiUrl w (enterpriseUrl cred) = Inl e
     \<Longrightarrow> snd (fetchUsageData ctx args w) = Rejected e"
  "snd (getAuthToken (authSource args) ctx w) = Fulfilled cred \<Longrightarrow> getApiUrl w (enterpriseUrl cred) = Inr apiUrl
     \<Longrightarrow> snd (fetchData w apiUrl (token cred)) = Rejected e
     \<Longrightarrow> snd (fetchUsageData ctx args w) = Rejected e"
  unfolding fetchUsageData_def
  by (simp_all add: snd_io_bind)


lemma fetchUsageData_parsed:
  assumes "snd (getAuthToken (authSource args) ctx w) = Fulfilled cred"
    and "getApiUrl w (enterpriseUrl cred) = Inr apiUrl"
    and "snd (fetchData w apiUrl (token cred)) = Fulfilled body"
    and "JSON_parse w body = Inr ent"
  shows "snd (fetchUsageData ctx args w) =
     (case (case quota_snapshots ent of None \<Rightarrow> None | Some snapshots \<Rightarrow> premium_interactions snapshots) of
        None \<Rightarrow> Rejected (Error (''Premium requests not available for ''
                             @ capitalizePlanName w (copilot_plan ent) @ '' plan''))
      | Some quota \<Rightarrow>
          if unlimited quota then
            Fulfilled \<lparr>plan = capitalizePlanName w (copilot_plan ent), used = Fin 0, total_r = Fin 0,
                 percentUsed = Fin 0, unlimited_r = True\<rparr>
          else
            Fulfilled \<lparr>plan = capitalizePlanName w (copilot_plan ent),
                 used = js_sub (entitlement quota) (remaining quota),
                 total_r = entitlement quota,
                 percentUsed = js_sub (Fin 100) (percent_remaining quota),
                 unlimited_r = False\<rparr>)"
  using assms unfolding fetchUsageData_def
  by (simp add: snd_io_bind io_throw_def io_return_def Let_def split: option.splits)

lemma execute_result:
  "snd (execute args ctx w) =
     (case snd (fetchUsageData ctx args w) of
        Fulfilled result \<Rightarrow> Fulfilled (formatMarkdown result)
      | Rejected error \<Rightarrow>
          Fulfilled (''# Copilot Usage Error'' @ [CHR 0x0A, CHR 0x0A] @ ''Error: '' @ message error)
      | Pending \<Rightarrow> Pending)"
  unfolding execute_def io_catch_def
  by (cases "fetchUsageData ctx args w")
     (simp add: io_return_def Let_def split: promise.splits prod.splits)

lemma execute_trace:
  "fst (execute args ctx w) =
     (if has_log ctx then [Log ''debug'' ''Executing copilot-usage tool''] else [])
     @ fst (fetchUsageData ctx args w)
     @ (if has_log ctx
        then (case snd (fetchUsageData ctx args w) of
                Fulfilled result \<Rightarrow> [Log ''info'' ''Successfully fetched usage data'']
              | Rejected error \<Rightarrow> [Log ''error'' ''Failed to fetch usage data'']
              | Pending \<Rightarrow> [])
        else [])"
  unfolding execute_def io_catch_def
  by (cases "fetchUsageData ctx args w")
     (simp add: io_return_def Let_def fst_logMessage split: promise.splits prod.splits)

section \<open>The Credential Resolver\<close>

lemma getAuthToken_env:
  assumes "GITHUB_TOKEN w = Some t" and "t \<noteq> []"
  shows "getAuthToken pref ctx w =
           ((if has_log ctx
             then [Log ''debug'' ''Getting authentication token'',
                   Log ''info'' ''Using token from GITHUB_TOKEN environment variable'']
             else []),
            Fulfilled \<lparr>token = JStr t, enterpriseUrl = JUndefined, source = ''env''\<rparr>)"
  using assms by (simp add: getAuthToken_def io_return_def)

lemma getAuthToken_requests: "requests_of (fst (getAuthToken pref ctx w)) = []"
  by (simp add: getAuthToken_def requests_of_def Let_def io_throw_def io_return_def
      io_bind_lift js_member_def split: option.splits auth_file.splits sum.splits)


lemma has_access_not_nullish:
  "has_access (js_get authData k) \<Longrightarrow> authData \<noteq> JNull \<and> authData \<noteq> JUndefined"
  by (auto simp: has_access_def)

lemma getAuthToken_file:
  assumes "GITHUB_TOKEN w = None \<or> GITHUB_TOKEN w = Some []"
    and "authFile w = Content (Inr authData)"
    and "has_access (js_get authData ''github-copilot-enterprise'')
         \<or> has_access (js_get authData ''github-copilot'')"
  shows "snd (getAuthToken pref ctx w) =
     Fulfilled (if has_access (js_get authData ''github-copilot-enterprise'')
             \<and> has_access (js_get authData ''github-copilot'')
          then (if pref = Some enterprise
                then auth_entry (js_get authData ''github-copilot-enterprise'') ''enterprise''
                else auth_entry (js_get authData ''github-copilot'') ''public'')
          else if has_access (js_get authData ''github-copilot-enterprise'')
          then auth_entry (js_get authData ''github-copilot-enterprise'') ''enterprise''
          else auth_entry (js_get authData ''github-copilot'') ''public'')"
proof -
  from assms(3) have "authData \<noteq> JNull \<and> authData \<noteq> JUndefined"
    using has_access_not_nullish by blast
  with assms show ?thesis
    by (auto simp: getAuthToken_def Let_def io_return_def io_throw_def js_member_def
        auth_entry_def snd_io_bind io_lift_def)
qed

text \<open>
  Claim C1. When \<open>GITHUB_TOKEN\<close> holds a non-empty token, \<open>getAuthToken\<close> returns that
  token with the source tag \<open>env\<close> and no enterprise host (the standard record), without
  touching the credential file: no \<open>existsSync\<close>, no \<open>readFileSync\<close>, and the same run
  whatever the file holds and whatever source the caller prefers.
\<close>

theorem env_token_is_authoritative:
  assumes "GITHUB_TOKEN w = Some t" and "t \<noteq> []"
  shows "snd (getAuthToken pref ctx w)
           = Fulfilled \<lparr>token = JStr t, enterpriseUrl = JUndefined, source = ''env''\<rparr>
       \<and> file_accesses_of (fst (getAuthToken pref ctx w)) = []
       \<and> getAuthToken pref' ctx (w\<lparr>authFile := f\<rparr>) = getAuthToken pref ctx w"
  using assms by (simp add: getAuthToken_env file_accesses_of_def)

theorem env_token_is_authoritative_witness:
  "snd (getAuthToken (Some enterprise) \<lparr>has_log = True\<rparr>
          (bare_world\<lparr>GITHUB_TOKEN := Some ''ghp_token'', authFile := Content (Inr both_entries)\<rparr>))
     = Fulfilled \<lparr>token = JStr ''ghp_token'', enterpriseUrl = JUndefined, source = ''env''\<rparr>
   \<and> file_accesses_of
       (fst (getAuthToken (Some enterprise) \<lparr>has_log = True\<rparr>
          (bare_world\<lparr>GITHUB_TOKEN := Some ''ghp_token'', authFile := Content (Inr both_entries)\<rparr>)))
     = []"
  using env_token_is_authoritative
    [of "bare_world\<lparr>GITHUB_TOKEN := Some ''ghp_token'', authFile := Content (Inr both_entries)\<rparr>"
        "''ghp_token''" "Some enterprise" "\<lparr>has_log = True\<rparr>"]
  by simp

text \<open>
  Claim C2. With no token in the environment and a credential file that parses: when
  both entries have a truthy \<open>access\<close>, the organizational entry is returned exactly when
  the caller prefers \<open>enterprise\<close>, and the standard one otherwise (also with no
  preference); when only one entry has a truthy \<open>access\<close>, that entry is returned
  whatever the preference.
\<close>

theorem file_entry_selection:
  assumes "GITHUB_TOKEN w = None \<or> GITHUB_TOKEN w = Some []"
    and "authFile w = Content (Inr authData)"
  shows "(has_access (js_get authData ''github-copilot-enterprise'')
            \<and> has_access (js_get authData ''github-copilot'') \<longrightarrow>
          snd (getAuthToken pref ctx w)
            = Fulfilled (if pref = Some enterprise
                   then auth_entry (js_get authData ''github-copilot-enterprise'') ''enterprise''
                   else auth_entry (js_get authData ''github-copilot'') ''public''))
       \<and> (has_access (js_get authData ''github-copilot-enterprise'')
            \<and> \<not> has_access (js_get authData ''github-copilot'') \<longrightarrow>
          snd (getAuthToken pref ctx w)
            = Fulfilled (auth_entry (js_get authData ''github-copilot-enterprise'') ''enterprise''))
       \<and> (\<not> has_access (js_get authData ''github-copilot-enterprise'')
            \<and> has_access (js_get authData ''github-copilot'') \<longrightarrow>
          snd (getAuthToken pref ctx w)
            = Fulfilled (auth_entry (js_get authData ''github-copilot'') ''public''))"
  using getAuthToken_file [OF assms, of pref ctx] by auto

theorem file_entry_selection_witness:
  "snd (getAuthToken (Some enterprise) \<lparr>has_log = True\<rparr> (bare_world\<lparr>authFile := Content (Inr both_entries)\<rparr>))
     = Fulfilled \<lparr>token = JStr ''ent-secret'', enterpriseUrl = JStr ''github.example.com'', source = ''enterprise''\<rparr>
   \<and> snd (getAuthToken (Some public) \<lparr>has_log = True\<rparr> (bare_world\<lparr>authFile := Content (Inr both_entries)\<rparr>))
     = Fulfilled \<lparr>token = JStr ''pub-secret'', enterpriseUrl = JUndefined, source = ''public''\<rparr>
   \<and> snd (getAuthToken None \<lparr>has_log = True\<rparr> (bare_world\<lparr>authFile := Content (Inr both_entries)\<rparr>))
     = Fulfilled \<lparr>token = JStr ''pub-secret'', enterpriseUrl = JUndefined, source = ''public''\<rparr>
   \<and> snd (getAuthToken (Some public) \<lparr>has_log = True\<rparr>
            (bare_world\<lparr>authFile := Content (Inr enterprise_without_host)\<rparr>))
     = Fulfilled \<lparr>token = JStr ''ent-secret'', enterpriseUrl = JUndefined, source = ''enterprise''\<rparr>
   \<and> snd (getAuthToken (Some enterprise) \<lparr>has_log = True\<rparr>
            (bare_world\<lparr>authFile := Content (Inr public_with_host)\<rparr>))
     = Fulfilled \<lparr>token = JStr ''pub-secret'', enterpriseUrl = JStr ''github.example.com'', source = ''public''\<rparr>"
  using file_entry_selection [of "bare_world\<lparr>authFile := Content (Inr both_entries)\<rparr>" both_entries
          "Some enterprise" "\<lparr>has_log = True\<rparr>"]
        file_entry_selection [of "bare_world\<lparr>authFile := Content (Inr both_entries)\<rparr>" both_entries
          "Some public" "\<lparr>has_log = True\<rparr>"]
        file_entry_selection [of "bare_world\<lparr>authFile := Content (Inr both_entries)\<rparr>" both_entries
          "None" "\<lparr>has_log = True\<rparr>"]
        file_entry_selection [of "bare_world\<lparr>authFile := Content (Inr enterprise_without_host)\<rparr>"
          enterprise_without_host "Some public" "\<lparr>has_log = True\<rparr>"]
        file_entry_selection [of "bare_world\<lparr>authFile := Content (Inr public_with_host)\<rparr>"
          public_with_host "Some enterprise" "\<lparr>has_log = True\<rparr>"]
  by (simp add: bare_world_def both_entries_def enterprise_without_host_def public_with_host_def
      has_access_def auth_entry_def)

lemma getAuthToken_sources:
  assumes "snd (getAuthToken pref ctx w) = Fulfilled c"
  shows "(source c = ''env'' \<and> enterpriseUrl c = JUndefined)
       \<or> (\<exists>authData. authFile w = Content (Inr authData)
             \<and> c = auth_entry (js_get authData ''github-copilot-enterprise'') ''enterprise'')
       \<or> (\<exists>authData. authFile w = Content (Inr authData)
             \<and> c = auth_entry (js_get authData ''github-copilot'') ''public'')"
  using assms
  by (auto simp: getAuthToken_def Let_def io_return_def io_throw_def io_bind_lift js_member_def
      snd_io_bind split: option.splits auth_file.splits sum.splits if_splits)

text \<open>
  Claim C4, as stated, fails: the record carries the \<open>enterpriseUrl\<close> field of whichever
  entry was chosen. A standard entry that has the field is returned with it, and the
  endpoint is then built from that host.
\<close>

theorem standard_entry_host_counterexample:
  "snd (getAuthToken None \<lparr>has_log = False\<rparr> (bare_world\<lparr>authFile := Content (Inr public_with_host)\<rparr>))
     = Fulfilled \<lparr>token = JStr ''pub-secret'', enterpriseUrl = JStr ''github.example.com'', source = ''public''\<rparr>
   \<and> getApiUrl bare_world (JStr ''github.example.com'')
     = Inr ''https://api.github.example.com/copilot_internal/user''"
  by (simp add: getAuthToken_def bare_world_def public_with_host_def has_access_def auth_entry_def
      js_member_def io_return_def io_bind_lift getApiUrl_def example_URL_def)

text \<open>
  Claim C4, amended. A resolved record either comes from the environment and has no
  host, or is an entry of the credential file and carries that entry's \<open>enterpriseUrl\<close>
  field, for the organizational and the standard entry alike (\<open>undefined\<close> when the
  entry has no such field). When the record has no host, the endpoint is the public
  default.
\<close>

theorem resolved_host_is_entry_field:
  assumes "snd (getAuthToken pref ctx w) = Fulfilled c"
  shows "((source c = ''env'' \<and> enterpriseUrl c = JUndefined)
          \<or> (\<exists>authData. authFile w = Content (Inr authData) \<and> source c = ''enterprise''
                \<and> enterpriseUrl c
                    = js_get (js_get authData ''github-copilot-enterprise'') ''enterpriseUrl'')
          \<or> (\<exists>authData. authFile w = Content (Inr authData) \<and> source c = ''public''
                \<and> enterpriseUrl c = js_get (js_get authData ''github-copilot'') ''enterpriseUrl''))
       \<and> (enterpriseUrl c = JUndefined \<longrightarrow>
            getApiUrl w (enterpriseUrl c) = Inr ''https://api.github.com/copilot_internal/user'')"
  using getAuthToken_sources [OF assms]
  by (auto simp: auth_entry_def getApiUrl_def)

theorem resolved_host_is_entry_field_witness:
  "snd (getAuthToken None \<lparr>has_log = False\<rparr>
          (bare_world\<lparr>authFile := Content (Inr enterprise_without_host)\<rparr>))
     = Fulfilled \<lparr>token = JStr ''ent-secret'', enterpriseUrl = JUndefined, source = ''enterprise''\<rparr>
   \<and> getApiUrl (bare_world\<lparr>authFile := Content (Inr enterprise_without_host)\<rparr>) JUndefined
       = Inr ''https://api.github.com/copilot_internal/user''"
proof -
  let ?w = "bare_world\<lparr>authFile := Content (Inr enterprise_without_host)\<rparr>"
  let ?c = "\<lparr>token = JStr ''ent-secret'', enterpriseUrl = JUndefined, source = ''enterprise''\<rparr>"
  have h: "snd (getAuthToken None \<lparr>has_log = False\<rparr> ?w) = Fulfilled ?c"
    by (simp add: getAuthToken_def bare_world_def enterprise_without_host_def has_access_def
        auth_entry_def js_member_def io_return_def io_bind_lift)
  from resolved_host_is_entry_field [OF h] h show ?thesis
    by simp
qed

text \<open>
  Claim C10. With a non-empty token in \<open>GITHUB_TOKEN\<close> the resolved record has no
  enterprise host, \<open>getApiUrl\<close> answers with the public default endpoint, and the only
  request of the invocation is the one \<open>fetchData\<close> builds from that address with that
  token, whatever source the caller asked for.
\<close>

theorem env_token_targets_public_endpoint:
  assumes "GITHUB_TOKEN w = Some t" and "t \<noteq> []"
  shows "(\<exists>cred. snd (getAuthToken (authSource args) ctx w) = Fulfilled cred
            \<and> enterpriseUrl cred = JUndefined
            \<and> getApiUrl w (enterpriseUrl cred) = Inr ''https://api.github.com/copilot_internal/user'')
       \<and> requests_of (fst (execute args ctx w))
           = (case URL w ''https://api.github.com/copilot_internal/user'' of
                Inl e \<Rightarrow> []
              | Inr u \<Rightarrow> [HttpRequest (protocol u = ''https:'') (fetch_options u (JStr t))])"
  using assms
  by (simp add: execute_trace fetchUsageData_trace fetchData_trace getAuthToken_env
      getApiUrl_def requests_of_def split: sum.splits promise.splits)

theorem env_token_targets_public_endpoint_witness:
  "requests_of (fst (execute \<lparr>authSource = Some enterprise\<rparr> \<lparr>has_log = True\<rparr>
       (bare_world\<lparr>GITHUB_TOKEN := Some ''ghp_token'', authFile := Content (Inr both_entries)\<rparr>)))
     = [HttpRequest True
          \<lparr>opt_hostname = ''api.github.com'', opt_port = [], opt_path = ''/copilot_internal/user'',
           opt_method = ''GET'',
           opt_headers = \<lparr>Authorization = ''Bearer ghp_token'', Accept = ''application/json'',
                          User_Agent = ''OpenCode-Copilot-Usage-Tool''\<rparr>\<rparr>]"
  using env_token_targets_public_endpoint
    [of "bare_world\<lparr>GITHUB_TOKEN := Some ''ghp_token'', authFile := Content (Inr both_entries)\<rparr>"
        "''ghp_token''" "\<lparr>authSource = Some enterprise\<rparr>" "\<lparr>has_log = True\<rparr>"]
  by (simp add: bare_world_def example_URL_def fetch_options_def)

section \<open>The Endpoint Builder\<close>

text \<open>
  Claim C3. Without an enterprise host (\<open>undefined\<close>, or the empty string) \<open>getApiUrl\<close>
  returns the public default endpoint. With a host string \<open>h\<close> it parses \<open>https://h\<close> and returns the scheme of the
  parsed address, \<open>//api.\<close>, its hostname, its port after a colon when it has one, and
  the path \<open>/copilot_internal/user\<close>. For \<open>github.example.com\<close>, parsed as the standard
  parser does, that is \<open>https://api.github.example.com/copilot_internal/user\<close>.
\<close>

theorem getApiUrl_endpoint:
  "getApiUrl w JUndefined = Inr ''https://api.github.com/copilot_internal/user''
   \<and> getApiUrl w (JStr []) = Inr ''https://api.github.com/copilot_internal/user''
   \<and> (h \<noteq> [] \<and> URL w (''https://'' @ h) = Inr u \<longrightarrow>
        getApiUrl w (JStr h)
          = Inr (protocol u @ ''//api.'' @ hostname u
                 @ (if port u = [] then [] else '':'' @ port u)
                 @ ''/copilot_internal/user''))
   \<and> (URL w ''https://github.example.com'' = Inr u'
        \<and> protocol u' = ''https:'' \<and> hostname u' = ''github.example.com'' \<and> port u' = [] \<longrightarrow>
        getApiUrl w (JStr ''github.example.com'')
          = Inr ''https://api.github.example.com/copilot_internal/user'')"
  by (simp add: getApiUrl_def)

theorem getApiUrl_endpoint_witness:
  "getApiUrl bare_world JUndefined = Inr ''https://api.github.com/copilot_internal/user''
   \<and> getApiUrl bare_world (JStr ''github.example.com'')
       = Inr ''https://api.github.example.com/copilot_internal/user''"
  using getApiUrl_endpoint
    [of bare_world "''github.example.com''"
        "\<lparr>protocol = ''https:'', hostname = ''github.example.com'', port = [],
          pathname = ''/'', search = []\<rparr>"
        "\<lparr>protocol = ''https:'', hostname = ''github.example.com'', port = [],
          pathname = ''/'', search = []\<rparr>"]
  by (simp add: bare_world_def example_URL_def)

section \<open>Rounding to a double\<close>

lemma round_half_even_of_int [simp]: "round_half_even (of_int z) = z"
  by (simp add: round_half_even_def)

lemma round_half_even_near: "\<bar>of_int (round_half_even x) - x\<bar> \<le> 1 / 2"
proof -
  have "of_int \<lfloor>x\<rfloor> \<le> x" "x < of_int \<lfloor>x\<rfloor> + 1"
    by linarith+
  then show ?thesis
    by (auto simp: round_half_even_def Let_def)
qed

lemma round_half_even_nonneg: "0 \<le> x \<Longrightarrow> 0 \<le> round_half_even x"
  by (auto simp: round_half_even_def Let_def intro: order_trans [of 0 "\<lfloor>x\<rfloor>"])

lemma ilog_below_one: "x < 1 \<Longrightarrow> ilog 2 x \<le> 0"
  by (simp add: ilog_def)

lemma ilog_upper:
  assumes "1 \<le> x" and "x < 2 ^ m"
  shows "ilog 2 x < int m"
proof -
  have "of_int \<lfloor>x\<rfloor> \<le> x" by linarith
  with assms(2) have "(of_int \<lfloor>x\<rfloor> :: real) < 2 ^ m" by linarith
  then have "\<lfloor>x\<rfloor> < 2 ^ m"
    by (metis of_int_less_iff of_int_numeral of_int_power)
  then have "nat \<lfloor>x\<rfloor> < 2 ^ m"
    by (simp add: nat_less_iff)
  then have "floorlog 2 (nat \<lfloor>x\<rfloor>) \<le> m"
    by (simp add: floorlog_le_iff)
  with assms(1) show ?thesis
    by (simp add: ilog_def)
qed

lemma ilog_nonneg:
  assumes "1 \<le> x"
  shows "0 \<le> ilog 2 x"
proof -
  from assms have "0 < nat \<lfloor>x\<rfloor>" by simp
  then have "floorlog 2 (nat \<lfloor>x\<rfloor>) \<noteq> 0"
    by (simp add: floorlog_eq_zero_iff)
  with assms show ?thesis
    by (simp add: ilog_def)
qed

lemma pow_int_nonpos: "k \<le> 0 \<Longrightarrow> pow_int 2 k = 1 / 2 ^ nat (- k)"
  by (auto simp: pow_int_def)

lemma round_double_of_int:
  assumes "\<bar>i\<bar> < 2 ^ 53"
  shows "round_double (of_int i) = Fin (of_int i)"
proof (cases "i = 0")
  case True
  then show ?thesis by (simp add: round_double_def)
next
  case False
  define a :: real where "a = \<bar>of_int i\<bar>"
  define e where "e = ilog 2 a"
  have a1: "1 \<le> a" using False by (simp add: a_def)
  have "a < 2 ^ 53"
    using assms unfolding a_def
    by (metis of_int_abs of_int_less_iff of_int_numeral of_int_power)
  with a1 have e_hi: "e < 53" and e_lo: "0 \<le> e"
    unfolding e_def using ilog_upper [of a 53] ilog_nonneg [of a] by simp_all
  define j where "j = nat (52 - e)"
  have k: "max (e - 52) (- 1074) = - int j"
    using e_hi e_lo by (simp add: j_def)
  have p: "pow_int 2 (- int j) = 1 / 2 ^ j"
    by (simp add: pow_int_nonpos)
  have "a / pow_int 2 (- int j) = of_int (\<bar>i\<bar> * 2 ^ j)"
    by (simp add: p a_def)
  then have n: "round_half_even (a / pow_int 2 (- int j)) = \<bar>i\<bar> * 2 ^ j"
    by (simp only: round_half_even_of_int)
  have v: "sgn (of_int i :: real) * of_int (\<bar>i\<bar> * 2 ^ j) * pow_int 2 (- int j) = of_int i"
    by (simp add: p sgn_if)
  have ne: "\<bar>i\<bar> * 2 ^ j \<noteq> 2 ^ 53 \<or> e \<noteq> 1023"
    using e_hi by simp
  show ?thesis
    using False e_hi e_lo k n v
    unfolding round_double_def Let_def a_def [symmetric] e_def [symmetric]
    by (simp add: a_def [symmetric])
qed

lemma js_sub_integers:
  "\<bar>a - b\<bar> < 2 ^ 53 \<Longrightarrow> js_sub (Fin (of_int a)) (Fin (of_int b)) = Fin (of_int (a - b))"
  using round_double_of_int [of "a - b"] by simp

lemma pow_int_bounds:
  assumes "k \<le> int m"
  shows "0 < pow_int 2 k" and "pow_int 2 k \<le> 2 ^ m"
proof -
  show "0 < pow_int 2 k"
    by (simp add: pow_int_def)
  show "pow_int 2 k \<le> 2 ^ m"
  proof (cases "0 \<le> k")
    case True
    with assms have "nat k \<le> m" by simp
    then have "(2::real) ^ nat k \<le> 2 ^ m"
      by (intro power_increasing) simp_all
    with True show ?thesis by (simp add: pow_int_def)
  next
    case False
    then have "pow_int 2 k = 1 / 2 ^ nat (- k)"
      by (simp add: pow_int_def)
    also have "\<dots> \<le> 1"
      by (simp add: divide_le_eq_1)
    also have "\<dots> \<le> (2::real) ^ m"
      by simp
    finally show ?thesis .
  qed
qed

lemma round_double_moderate:
  assumes "\<bar>q\<bar> < 2 ^ 67"
  shows "\<exists>p. round_double q = Fin p \<and> \<bar>p\<bar> < 10 ^ 21 \<and> (0 \<le> q \<longrightarrow> 0 \<le> p)"
proof (cases "q = 0")
  case True
  then show ?thesis by (simp add: round_double_def)
next
  case False
  define e where "e = ilog 2 \<bar>q\<bar>"
  have e_hi: "e < 67"
  proof (cases "1 \<le> \<bar>q\<bar>")
    case True
    with assms show ?thesis
      unfolding e_def using ilog_upper [of "\<bar>q\<bar>" 67] by simp
  next
    case False
    then show ?thesis
      unfolding e_def using ilog_below_one [of "\<bar>q\<bar>"] by simp
  qed
  define k where "k = max (e - 52) (- 1074)"
  have "k \<le> int 14" using e_hi by (simp add: k_def)
  define P where "P = pow_int 2 k"
  have P: "0 < P" "P \<le> 2 ^ 14"
    unfolding P_def using pow_int_bounds [OF \<open>k \<le> int 14\<close>] by simp_all
  define n where "n = round_half_even (\<bar>q\<bar> / P)"
  have n0: "0 \<le> n"
    unfolding n_def using P by (intro round_half_even_nonneg) simp
  have "\<bar>of_int n - \<bar>q\<bar> / P\<bar> \<le> 1 / 2"
    unfolding n_def by (rule round_half_even_near)
  then have "of_int n \<le> \<bar>q\<bar> / P + 1 / 2" by linarith
  then have "of_int n * P \<le> (\<bar>q\<bar> / P + 1 / 2) * P"
    using P by (intro mult_right_mono) simp_all
  also have "\<dots> = \<bar>q\<bar> + P / 2"
    using P by (simp add: field_simps)
  also have "\<dots> < 2 ^ 67 + 2 ^ 13"
    using assms P by simp
  finally have up: "of_int n * P < 10 ^ 21"
    by simp
  have lo: "0 \<le> of_int n * P"
    using n0 P by simp
  have rd: "round_double q = Fin (sgn q * of_int n * P)"
    using False e_hi
    unfolding round_double_def Let_def e_def [symmetric] k_def [symmetric] P_def [symmetric]
      n_def [symmetric]
    by simp
  have "\<bar>sgn q * of_int n * P\<bar> = of_int n * P"
    using False n0 P by (simp add: abs_mult sgn_if)
  moreover have "0 \<le> sgn q * of_int n * P" if "0 \<le> q"
    using that False lo by (simp add: sgn_if)
  ultimately show ?thesis
    using rd up by auto
qed

section \<open>Lines, words and digits\<close>

lemma split_no_separator: "c \<notin> set xs \<Longrightarrow> split c xs = [xs]"
  by (induction xs) auto

lemma split_at_separator: "c \<notin> set xs \<Longrightarrow> split c (xs @ c # ys) = xs # split c ys"
  by (induction xs) auto

lemma split_join:
  "ws \<noteq> [] \<Longrightarrow> \<forall>word \<in> set ws. c \<notin> set word \<Longrightarrow> split c (join [c] ws) = ws"
proof (induction ws)
  case Nil
  then show ?case by simp
next
  case (Cons x xs)
  show ?case
  proof (cases xs)
    case Nil
    with Cons.prems show ?thesis by (simp add: split_no_separator)
  next
    case (Cons y ys)
    with Cons.IH Cons.prems show ?thesis by (simp add: split_at_separator)
  qed
qed

lemma digit_0 [simp]: "digit 0 = CHR ''0''"
  by (simp add: digit_def)

lemma digits_of_small: "n < 10 \<Longrightarrow> digits_of n = [digit n]"
  by (simp add: digits_of.simps)

lemma digits_of_step: "10 \<le> n \<Longrightarrow> digits_of n = digits_of (n div 10) @ [digit (n mod 10)]"
  by (subst digits_of.simps) simp

lemma length_digits_of: "0 < length (digits_of n)"
  by (subst digits_of.simps) simp

lemma toFixed_two_decimals:
  assumes "\<bar>q\<bar> < 10 ^ 21"
  shows "toFixed (Fin q) 2
           = (if q < 0 then ''-'' else [])
             @ digits_of (nat \<lfloor>\<bar>q\<bar> * 100 + 1 / 2\<rfloor> div 100) @ ''.''
             @ [digit (nat \<lfloor>\<bar>q\<bar> * 100 + 1 / 2\<rfloor> div 10 mod 10),
                digit (nat \<lfloor>\<bar>q\<bar> * 100 + 1 / 2\<rfloor> mod 10)]"
proof -
  define n where "n = nat \<lfloor>\<bar>q\<bar> * 100 + 1 / 2\<rfloor>"
  have tf: "toFixed (Fin q) 2
              = (if q < 0 then ''-'' else [])
                @ (let m = digits_of n;
                       m = (if length m \<le> 2 then replicate (3 - length m) CHR ''0'' @ m else m)
                   in take (length m - 2) m @ ''.'' @ drop (length m - 2) m)"
    using assms by (simp add: toFixed_def n_def Let_def)
  consider "n < 10" | "10 \<le> n" "n < 100" | "100 \<le> n" by linarith
  then have "(let m = digits_of n;
                  m = (if length m \<le> 2 then replicate (3 - length m) CHR ''0'' @ m else m)
              in take (length m - 2) m @ ''.'' @ drop (length m - 2) m)
             = digits_of (n div 100) @ ''.'' @ [digit (n div 10 mod 10), digit (n mod 10)]"
  proof cases
    case 1
    then show ?thesis
      by (simp add: digits_of_small numeral_2_eq_2)
  next
    case 2
    then have "digits_of n = [digit (n div 10), digit (n mod 10)]"
      by (simp add: digits_of_step digits_of_small)
    with 2 show ?thesis
      by (simp add: digits_of_small)
  next
    case 3
    then have d: "digits_of n = digits_of (n div 100) @ [digit (n div 10 mod 10), digit (n mod 10)]"
      by (simp add: digits_of_step [of n] digits_of_step [of "n div 10"] div_mult2_eq [symmetric])
    have "0 < length (digits_of (n div 100))"
      by (rule length_digits_of)
    with d show ?thesis
      by (simp add: Let_def)
  qed
  with tf show ?thesis
    by (simp add: n_def)
qed

section \<open>The Usage Fetcher\<close>

text \<open>
  Claim C8. A response whose status is not in 200..299 makes \<open>fetchData\<close> fail, after
  that one request, with the error \<open>HTTP <status>: <status message>\<close>; when the
  resolver and the endpoint builder succeeded, the invocation returns the error block
  with that message and has sent exactly one request. For status 401 the text reads
  \<open>HTTP 401\<close>.
\<close>

theorem non_2xx_is_http_error:
  assumes "URL w url_text = Inr u"
    and "request w (protocol u = ''https:'') (fetch_options u tok) = Response status statusMessage body"
    and "\<not> (200 \<le> status \<and> status < 300)"
  shows "fetchData w url_text tok
           = ([HttpRequest (protocol u = ''https:'') (fetch_options u tok)],
              Rejected (Error (''HTTP '' @ digits_of status @ '': '' @ statusMessage)))
       \<and> (snd (getAuthToken (authSource args) ctx w) = Fulfilled cred
            \<and> getApiUrl w (enterpriseUrl cred) = Inr url_text \<and> token cred = tok \<longrightarrow>
            snd (execute args ctx w)
              = Fulfilled (''# Copilot Usage Error'' @ [CHR 0x0A, CHR 0x0A]
                @ ''Error: HTTP '' @ digits_of status @ '': '' @ statusMessage)
            \<and> length (requests_of (fst (execute args ctx w))) = 1)
       \<and> digits_of 401 = ''401''"
proof -
  have fd: "fetchData w url_text tok
           = ([HttpRequest (protocol u = ''https:'') (fetch_options u tok)],
              Rejected (Error (''HTTP '' @ digits_of status @ '': '' @ statusMessage)))"
    using assms fetchData_trace [of w url_text tok] fetchData_result [of w url_text tok]
    by (auto simp: prod_eq_iff)
  have ex: "snd (execute args ctx w)
              = Fulfilled (''# Copilot Usage Error'' @ [CHR 0x0A, CHR 0x0A]
                @ ''Error: HTTP '' @ digits_of status @ '': '' @ statusMessage)
            \<and> length (requests_of (fst (execute args ctx w))) = 1"
    if c: "snd (getAuthToken (authSource args) ctx w) = Fulfilled cred"
      and a: "getApiUrl w (enterpriseUrl cred) = Inr url_text" and t: "token cred = tok"
  proof -
    have r: "snd (fetchUsageData ctx args w)
               = Rejected (Error (''HTTP '' @ digits_of status @ '': '' @ statusMessage))"
      using fetchUsageData_error(3) [OF c a] fd t by simp
    have "requests_of (fst (getAuthToken (authSource args) ctx w)) = []"
      by (simp add: getAuthToken_requests)
    then show ?thesis
      using r c a t fd
      by (simp add: execute_result execute_trace fetchUsageData_trace requests_of_def)
  qed
  have "digits_of 401 = ''401''"
    by (simp add: digits_of.simps digit_def)
  with fd ex show ?thesis by blast
qed

theorem non_2xx_is_http_error_witness:
  "snd (execute \<lparr>authSource = None\<rparr> \<lparr>has_log = True\<rparr> unauthorized_world)
     = Fulfilled (''# Copilot Usage Error'' @ [CHR 0x0A, CHR 0x0A] @ ''Error: HTTP 401: Unauthorized'')
   \<and> length (requests_of (fst (execute \<lparr>authSource = None\<rparr> \<lparr>has_log = True\<rparr> unauthorized_world))) = 1"
proof -
  let ?u = "\<lparr>protocol = ''https:'', hostname = ''api.github.com'', port = [],
             pathname = ''/copilot_internal/user'', search = []\<rparr>"
  let ?cred = "\<lparr>token = JStr ''ghp_token'', enterpriseUrl = JUndefined, source = ''env''\<rparr>"
  have h1: "URL unauthorized_world ''https://api.github.com/copilot_internal/user'' = Inr ?u"
    by (simp add: unauthorized_world_def bare_world_def example_URL_def)
  have h2: "request unauthorized_world (protocol ?u = ''https:'') (fetch_options ?u (JStr ''ghp_token''))
              = Response 401 ''Unauthorized'' []"
    by (simp add: unauthorized_world_def bare_world_def)
  have h3: "\<not> (200 \<le> (401::nat) \<and> (401::nat) < 300)"
    by simp
  have c: "snd (getAuthToken (authSource \<lparr>authSource = None\<rparr>) \<lparr>has_log = True\<rparr> unauthorized_world)
             = Fulfilled ?cred"
    by (simp add: getAuthToken_env [where t = "''ghp_token''"] unauthorized_world_def bare_world_def)
  have a: "getApiUrl unauthorized_world (enterpriseUrl ?cred)
             = Inr ''https://api.github.com/copilot_internal/user''"
    by (simp add: getApiUrl_def)
  show ?thesis
    using non_2xx_is_http_error [OF h1 h2 h3, of "\<lparr>authSource = None\<rparr>" "\<lparr>has_log = True\<rparr>" ?cred] c a
    by (simp add: digits_of.simps digit_def)
qed

lemmas bodies = free_plan_body_def pro_plan_body_def unlimited_plan_body_def json_field_def json_text_def


lemma serving_world_chain:
  "snd (getAuthToken pref ctx (serving_world body))
     = Fulfilled \<lparr>token = JStr ''ghp_token'', enterpriseUrl = JUndefined, source = ''env''\<rparr>"
  "getApiUrl (serving_world body) JUndefined = Inr ''https://api.github.com/copilot_internal/user''"
  "snd (fetchData (serving_world body) ''https://api.github.com/copilot_internal/user'' (JStr ''ghp_token''))
     = Fulfilled body"
  by (simp_all add: getAuthToken_env [where t = "''ghp_token''"] serving_world_def bare_world_def
      getApiUrl_def fetchData_result example_URL_def)

lemma capitalize_individual_pro: "capitalizePlanName w ''individual_pro'' = ''Individual Pro''"
  by (simp add: capitalizePlanName_def toUpperCase_def upper_ascii_def)

lemma capitalize_words:
  assumes "ws \<noteq> []" and "\<forall>word \<in> set ws. CHR ''_'' \<notin> set word"
  shows "capitalizePlanName w (join ''_'' ws)
           = join '' '' (map (\<lambda>word. toUpperCase (upper_other w) (take 1 word) @ drop 1 word) ws)"
  using split_join [OF assms] by (simp add: capitalizePlanName_def)

text \<open>
  Claim C7. When the response parses and has no \<open>premium_interactions\<close> snapshot (no
  \<open>quota_snapshots\<close> at all, or none for premium interactions), \<open>fetchUsageData\<close> fails
  with the message \<open>Premium requests not available for <plan> plan\<close>, where the plan is
  the raw name split at underscores, each word with its first code unit in upper case,
  joined by spaces; \<open>individual_pro\<close> becomes \<open>Individual Pro\<close>.
\<close>

theorem missing_quota_names_plan:
  assumes "snd (getAuthToken (authSource args) ctx w) = Fulfilled cred"
    and "getApiUrl w (enterpriseUrl cred) = Inr apiUrl"
    and "snd (fetchData w apiUrl (token cred)) = Fulfilled body"
    and "JSON_parse w body = Inr ent"
    and "quota_snapshots ent = None
         \<or> (\<exists>snapshots. quota_snapshots ent = Some snapshots \<and> premium_interactions snapshots = None)"
  shows "snd (fetchUsageData ctx args w)
           = Rejected (Error (''Premium requests not available for ''
                         @ capitalizePlanName w (copilot_plan ent) @ '' plan''))
       \<and> capitalizePlanName w ''individual_pro'' = ''Individual Pro''
       \<and> (ws \<noteq> [] \<and> (\<forall>word \<in> set ws. CHR ''_'' \<notin> set word) \<longrightarrow>
            capitalizePlanName w (join ''_'' ws)
              = join '' '' (map (\<lambda>word. toUpperCase (upper_other w) (take 1 word) @ drop 1 word) ws))"
  using fetchUsageData_parsed [OF assms(1-4)] assms(5) capitalize_words [of ws w]
  by (auto simp: capitalize_individual_pro)

theorem missing_quota_names_plan_witness:
  "snd (fetchUsageData \<lparr>has_log = True\<rparr> \<lparr>authSource = None\<rparr> (serving_world free_plan_body))
     = Rejected (Error ''Premium requests not available for Individual Pro plan'')
   \<and> capitalizePlanName (serving_world free_plan_body) (join ''_'' [''copilot'', ''for'', ''business''])
     = ''Copilot For Business''"
proof -
  let ?w = "serving_world free_plan_body"
  have p: "JSON_parse ?w free_plan_body = Inr \<lparr>copilot_plan = ''individual_pro'', quota_snapshots = None\<rparr>"
    by (simp add: serving_world_def example_JSON_parse_def)
  have q: "quota_snapshots \<lparr>copilot_plan = ''individual_pro'', quota_snapshots = None\<rparr> = None
         \<or> (\<exists>snapshots. quota_snapshots \<lparr>copilot_plan = ''individual_pro'', quota_snapshots = None\<rparr>
                = Some snapshots \<and> premium_interactions snapshots = None)"
    by simp
  have c: "snd (getAuthToken (authSource \<lparr>authSource = None\<rparr>) \<lparr>has_log = True\<rparr> ?w)
             = Fulfilled \<lparr>token = JStr ''ghp_token'', enterpriseUrl = JUndefined, source = ''env''\<rparr>"
    by (rule serving_world_chain(1))
  have a: "getApiUrl ?w (enterpriseUrl \<lparr>token = JStr ''ghp_token'', enterpriseUrl = JUndefined, source = ''env''\<rparr>)
             = Inr ''https://api.github.com/copilot_internal/user''"
    by (simp add: serving_world_chain(2))
  have f: "snd (fetchData ?w ''https://api.github.com/copilot_internal/user''
                  (token \<lparr>token = JStr ''ghp_token'', enterpriseUrl = JUndefined, source = ''env''\<rparr>))
             = Fulfilled free_plan_body"
    by (simp add: serving_world_chain(3))
  show ?thesis
    using missing_quota_names_plan [OF c a f p q, of "[''copilot'', ''for'', ''business'']"]
    by (simp add: capitalize_individual_pro toUpperCase_def upper_ascii_def)
qed

lemmas number_text =
  NumberToString_def positive_to_string_def shortest_digits.simps digit_candidates_def closer_def
  round_double_def signed_inf_def ilog_def pow_int_def round_half_even_def compute_floorlog
  digits_of.simps digit_def Let_def

lemma NumberToString_150: "NumberToString (Fin 150) = ''150''"
  by (simp add: number_text)

lemma replicate_two: "replicate 2 x = [x, x]"
  by (simp add: numeral_2_eq_2)

lemma NumberToString_200: "NumberToString (Fin 200) = ''200''"
  by (simp add: number_text replicate_two)

lemma toFixed_75: "toFixed (Fin 75) 2 = ''75.00''"
  by (simp add: toFixed_two_decimals digits_of.simps digit_def)

lemma percent_two_decimals:
  assumes "\<bar>100 - p\<bar> < 2 ^ 67"
  shows "\<exists>u. js_sub (Fin 100) (Fin p) = Fin u \<and> (p \<le> 100 \<longrightarrow> 0 \<le> u)
            \<and> toFixed (Fin u) 2
                = (if u < 0 then ''-'' else [])
                  @ digits_of (nat \<lfloor>\<bar>u\<bar> * 100 + 1 / 2\<rfloor> div 100) @ ''.''
                  @ [digit (nat \<lfloor>\<bar>u\<bar> * 100 + 1 / 2\<rfloor> div 10 mod 10),
                     digit (nat \<lfloor>\<bar>u\<bar> * 100 + 1 / 2\<rfloor> mod 10)]"
proof -
  from round_double_moderate [OF assms]
  obtain u where u: "round_double (100 - p) = Fin u" "\<bar>u\<bar> < 10 ^ 21" "0 \<le> 100 - p \<longrightarrow> 0 \<le> u"
    by blast
  from toFixed_two_decimals [OF u(2)] u(1,3) show ?thesis
    by (intro exI [of _ u]) simp
qed

text \<open>
  Claim C5. For a parsed response whose premium snapshot is not unlimited, the result
  has \<open>used = entitlement - remaining\<close> and \<open>percentUsed = 100 - percent_remaining\<close>
  (the subtraction of doubles, exact on integer counts below \<open>2 ^ 53\<close>), and the text
  returned is the header, an empty line and
  \<open>Premium requests: <used>/<total> (<percentUsed>%)\<close> with the percentage printed by
  \<open>toFixed(2)\<close>: whenever \<open>100 - percent_remaining\<close> is below \<open>2 ^ 67\<close> in magnitude (so
  for every percentage between 0 and 100) that is a sign when negative, an integer part,
  a point and exactly two digits. For 200, 50 and 25.0 the line reads
  \<open>Premium requests: 150/200 (75.00%)\<close>.
\<close>

theorem bounded_quota_rendering:
  assumes "snd (getAuthToken (authSource args) ctx w) = Fulfilled cred"
    and "getApiUrl w (enterpriseUrl cred) = Inr apiUrl"
    and "snd (fetchData w apiUrl (token cred)) = Fulfilled body"
    and "JSON_parse w body = Inr ent"
    and "quota_snapshots ent = Some snapshots"
    and "premium_interactions snapshots = Some quota"
    and "\<not> unlimited quota"
  shows "snd (fetchUsageData ctx args w)
           = Fulfilled \<lparr>plan = capitalizePlanName w (copilot_plan ent),
                  used = js_sub (entitlement quota) (remaining quota),
                  total_r = entitlement quota,
                  percentUsed = js_sub (Fin 100) (percent_remaining quota),
                  unlimited_r = False\<rparr>
       \<and> snd (execute args ctx w)
           = Fulfilled (''# Copilot '' @ capitalizePlanName w (copilot_plan ent) @ '' Usage''
             @ [CHR 0x0A, CHR 0x0A] @ ''Premium requests: ''
             @ NumberToString (js_sub (entitlement quota) (remaining quota)) @ ''/''
             @ NumberToString (entitlement quota)
             @ '' ('' @ toFixed (js_sub (Fin 100) (percent_remaining quota)) 2 @ ''%)'')
       \<and> (entitlement quota = Fin (of_int a) \<and> remaining quota = Fin (of_int b)
            \<and> \<bar>a - b\<bar> < 2 ^ 53 \<longrightarrow>
            js_sub (entitlement quota) (remaining quota) = Fin (of_int (a - b)))
       \<and> (percent_remaining quota = Fin p \<and> \<bar>100 - p\<bar> < 2 ^ 67 \<longrightarrow>
            (\<exists>u. js_sub (Fin 100) (percent_remaining quota) = Fin u \<and> (p \<le> 100 \<longrightarrow> 0 \<le> u)
                 \<and> toFixed (Fin u) 2
                     = (if u < 0 then ''-'' else [])
                       @ digits_of (nat \<lfloor>\<bar>u\<bar> * 100 + 1 / 2\<rfloor> div 100) @ ''.''
                       @ [digit (nat \<lfloor>\<bar>u\<bar> * 100 + 1 / 2\<rfloor> div 10 mod 10),
                          digit (nat \<lfloor>\<bar>u\<bar> * 100 + 1 / 2\<rfloor> mod 10)]))
       \<and> (entitlement quota = Fin 200 \<and> remaining quota = Fin 50
            \<and> percent_remaining quota = Fin 25 \<longrightarrow>
            snd (execute args ctx w)
              = Fulfilled (''# Copilot '' @ capitalizePlanName w (copilot_plan ent) @ '' Usage''
                @ [CHR 0x0A, CHR 0x0A] @ ''Premium requests: 150/200 (75.00%)''))"
proof -
  have res: "snd (fetchUsageData ctx args w)
           = Fulfilled \<lparr>plan = capitalizePlanName w (copilot_plan ent),
                  used = js_sub (entitlement quota) (remaining quota),
                  total_r = entitlement quota,
                  percentUsed = js_sub (Fin 100) (percent_remaining quota),
                  unlimited_r = False\<rparr>"
    using fetchUsageData_parsed [OF assms(1-4)] assms(5-7) by simp
  then have rendered: "snd (execute args ctx w)
           = Fulfilled (''# Copilot '' @ capitalizePlanName w (copilot_plan ent) @ '' Usage''
             @ [CHR 0x0A, CHR 0x0A] @ ''Premium requests: ''
             @ NumberToString (js_sub (entitlement quota) (remaining quota)) @ ''/''
             @ NumberToString (entitlement quota)
             @ '' ('' @ toFixed (js_sub (Fin 100) (percent_remaining quota)) 2 @ ''%)'')"
    by (simp add: execute_result formatMarkdown_def)
  have ints: "js_sub (entitlement quota) (remaining quota) = Fin (of_int (a - b))"
    if "entitlement quota = Fin (of_int a)" "remaining quota = Fin (of_int b)" "\<bar>a - b\<bar> < 2 ^ 53"
    using that js_sub_integers [of a b] by simp
  have pct: "\<exists>u. js_sub (Fin 100) (percent_remaining quota) = Fin u \<and> (p \<le> 100 \<longrightarrow> 0 \<le> u)
                 \<and> toFixed (Fin u) 2
                     = (if u < 0 then ''-'' else [])
                       @ digits_of (nat \<lfloor>\<bar>u\<bar> * 100 + 1 / 2\<rfloor> div 100) @ ''.''
                       @ [digit (nat \<lfloor>\<bar>u\<bar> * 100 + 1 / 2\<rfloor> div 10 mod 10),
                          digit (nat \<lfloor>\<bar>u\<bar> * 100 + 1 / 2\<rfloor> mod 10)]"
    if "percent_remaining quota = Fin p" "\<bar>100 - p\<bar> < 2 ^ 67"
    using that percent_two_decimals [of p] by simp
  have used_150: "js_sub (Fin 200) (Fin 50) = Fin 150"
    using js_sub_integers [of 200 50] by simp
  have pct_75: "js_sub (Fin 100) (Fin 25) = Fin 75"
    using js_sub_integers [of 100 25] by simp
  have ex: "snd (execute args ctx w)
              = Fulfilled (''# Copilot '' @ capitalizePlanName w (copilot_plan ent) @ '' Usage''
                @ [CHR 0x0A, CHR 0x0A] @ ''Premium requests: 150/200 (75.00%)'')"
    if "entitlement quota = Fin 200" "remaining quota = Fin 50" "percent_remaining quota = Fin 25"
    using rendered
    unfolding that used_150 pct_75 NumberToString_150 NumberToString_200 toFixed_75
    by simp
  from res rendered ints pct ex show ?thesis
    by blast
qed

theorem bounded_quota_rendering_witness:
  "snd (execute \<lparr>authSource = None\<rparr> \<lparr>has_log = True\<rparr> (serving_world pro_plan_body))
     = Fulfilled (''# Copilot Pro Usage'' @ [CHR 0x0A, CHR 0x0A] @ ''Premium requests: 150/200 (75.00%)'')"
proof -
  let ?w = "serving_world pro_plan_body"
  let ?q = "\<lparr>entitlement = Fin 200, overage_count = Fin 0, overage_permitted = False,
             percent_remaining = Fin 25, remaining = Fin 50, unlimited = False\<rparr>"
  let ?s = "\<lparr>chat = None, completions = None, premium_interactions = Some ?q\<rparr>"
  let ?e = "\<lparr>copilot_plan = ''pro'', quota_snapshots = Some ?s\<rparr>"
  let ?c = "\<lparr>token = JStr ''ghp_token'', enterpriseUrl = JUndefined, source = ''env''\<rparr>"
  have c: "snd (getAuthToken (authSource \<lparr>authSource = None\<rparr>) \<lparr>has_log = True\<rparr> ?w) = Fulfilled ?c"
    by (simp add: serving_world_chain)
  have a: "getApiUrl ?w (enterpriseUrl ?c) = Inr ''https://api.github.com/copilot_internal/user''"
    by (simp add: serving_world_chain)
  have f: "snd (fetchData ?w ''https://api.github.com/copilot_internal/user'' (token ?c))
             = Fulfilled pro_plan_body"
    by (simp add: serving_world_chain)
  have j: "JSON_parse ?w pro_plan_body = Inr ?e"
    by (simp add: serving_world_def example_JSON_parse_def bodies)
  have s: "quota_snapshots ?e = Some ?s" "premium_interactions ?s = Some ?q" "\<not> unlimited ?q"
    by simp_all
  from bounded_quota_rendering
         [OF c a f j s, of 200 50 25, THEN conjunct2, THEN conjunct2, THEN conjunct2, THEN conjunct2]
  show ?thesis
    by (simp add: capitalizePlanName_def toUpperCase_def upper_ascii_def)
qed

section \<open>The Presenter\<close>

text \<open>
  Claim C6, as stated, fails: the text of an unlimited result has three lines, and the
  second one is empty.
\<close>

theorem unlimited_two_lines_counterexample:
  "length (split CHR 0x0A (formatMarkdown
       \<lparr>plan = ''Enterprise'', used = Fin 0, total_r = Fin 0, percentUsed = Fin 0, unlimited_r = True\<rparr>))
     = 3
   \<and> split CHR 0x0A (formatMarkdown
       \<lparr>plan = ''Enterprise'', used = Fin 0, total_r = Fin 0, percentUsed = Fin 0, unlimited_r = True\<rparr>) ! 1
     = []"
  by (simp add: formatMarkdown_def)

text \<open>
  Claim C6, amended. The text of an unlimited result is the header naming the plan, an
  empty line, and the line \<open>Premium requests: unlimited\<close>: three lines when the plan
  name has no line break, the second empty. The numbers of the result do not appear,
  and neither do the numbers of an unlimited snapshot in the text of the invocation.
\<close>

theorem unlimited_rendering:
  "(unlimited_r result \<longrightarrow>
      formatMarkdown result
        = ''# Copilot '' @ plan result @ '' Usage'' @ [CHR 0x0A, CHR 0x0A] @ ''Premium requests: unlimited''
      \<and> (CHR 0x0A \<notin> set (plan result) \<longrightarrow>
           split CHR 0x0A (formatMarkdown result)
             = [''# Copilot '' @ plan result @ '' Usage'', [], ''Premium requests: unlimited'']))
   \<and> (snd (getAuthToken (authSource args) ctx w) = Fulfilled cred
        \<and> getApiUrl w (enterpriseUrl cred) = Inr apiUrl
        \<and> snd (fetchData w apiUrl (token cred)) = Fulfilled body
        \<and> JSON_parse w body = Inr ent
        \<and> quota_snapshots ent = Some snapshots
        \<and> premium_interactions snapshots = Some quota
        \<and> unlimited quota \<longrightarrow>
        snd (execute args ctx w)
          = Fulfilled (''# Copilot '' @ capitalizePlanName w (copilot_plan ent) @ '' Usage''
            @ [CHR 0x0A, CHR 0x0A] @ ''Premium requests: unlimited''))"
proof -
  have lines: "split CHR 0x0A (hd_line @ [CHR 0x0A, CHR 0x0A] @ ''Premium requests: unlimited'')
                 = [hd_line, [], ''Premium requests: unlimited'']"
    if "CHR 0x0A \<notin> set hd_line" for hd_line
    using split_at_separator [OF that, of "CHR 0x0A # ''Premium requests: unlimited''"]
    by simp
  have one: "split CHR 0x0A (formatMarkdown result)
             = [''# Copilot '' @ plan result @ '' Usage'', [], ''Premium requests: unlimited'']"
    if "unlimited_r result" and "CHR 0x0A \<notin> set (plan result)"
    using that lines [of "''# Copilot '' @ plan result @ '' Usage''"]
    by (simp add: formatMarkdown_def)
  have two: "snd (execute args ctx w)
          = Fulfilled (''# Copilot '' @ capitalizePlanName w (copilot_plan ent) @ '' Usage''
            @ [CHR 0x0A, CHR 0x0A] @ ''Premium requests: unlimited'')"
    if "snd (getAuthToken (authSource args) ctx w) = Fulfilled cred"
      and "getApiUrl w (enterpriseUrl cred) = Inr apiUrl"
      and "snd (fetchData w apiUrl (token cred)) = Fulfilled body"
      and "JSON_parse w body = Inr ent"
      and "quota_snapshots ent = Some snapshots"
      and "premium_interactions snapshots = Some quota"
      and "unlimited quota"
    using fetchUsageData_parsed [OF that(1-4)] that(5-7)
    by (simp add: execute_result formatMarkdown_def)
  from one two show ?thesis
    by (simp add: formatMarkdown_def)
qed

theorem unlimited_rendering_witness:
  "snd (execute \<lparr>authSource = None\<rparr> \<lparr>has_log = True\<rparr> (serving_world unlimited_plan_body))
     = Fulfilled (''# Copilot Enterprise Usage'' @ [CHR 0x0A, CHR 0x0A] @ ''Premium requests: unlimited'')
   \<and> split CHR 0x0A (formatMarkdown
        \<lparr>plan = ''Enterprise'', used = Fin 293, total_r = Fin 300, percentUsed = Fin (175 / 2),
         unlimited_r = True\<rparr>)
     = [''# Copilot Enterprise Usage'', [], ''Premium requests: unlimited'']"
proof -
  let ?w = "serving_world unlimited_plan_body"
  let ?q = "\<lparr>entitlement = Fin 300, overage_count = Fin 0, overage_permitted = False,
             percent_remaining = Fin (25 / 2), remaining = Fin 7, unlimited = True\<rparr>"
  let ?s = "\<lparr>chat = None, completions = None, premium_interactions = Some ?q\<rparr>"
  let ?e = "\<lparr>copilot_plan = ''enterprise'', quota_snapshots = Some ?s\<rparr>"
  let ?c = "\<lparr>token = JStr ''ghp_token'', enterpriseUrl = JUndefined, source = ''env''\<rparr>"
  let ?r = "\<lparr>plan = ''Enterprise'', used = Fin 293, total_r = Fin 300, percentUsed = Fin (175 / 2),
             unlimited_r = True\<rparr>"
  have h: "snd (getAuthToken (authSource \<lparr>authSource = None\<rparr>) \<lparr>has_log = True\<rparr> ?w) = Fulfilled ?c
        \<and> getApiUrl ?w (enterpriseUrl ?c) = Inr ''https://api.github.com/copilot_internal/user''
        \<and> snd (fetchData ?w ''https://api.github.com/copilot_internal/user'' (token ?c))
            = Fulfilled unlimited_plan_body
        \<and> JSON_parse ?w unlimited_plan_body = Inr ?e
        \<and> quota_snapshots ?e = Some ?s
        \<and> premium_interactions ?s = Some ?q
        \<and> unlimited ?q"
  proof -
    have "JSON_parse ?w unlimited_plan_body = Inr ?e"
      by (simp add: serving_world_def example_JSON_parse_def bodies)
    then show ?thesis
      by (simp add: serving_world_chain)
  qed
  have r: "unlimited_r ?r" "CHR 0x0A \<notin> set (plan ?r)"
    by simp_all
  from unlimited_rendering [of ?r "\<lparr>authSource = None\<rparr>" "\<lparr>has_log = True\<rparr>" ?w ?c
      "''https://api.github.com/copilot_internal/user''" unlimited_plan_body ?e ?s ?q] h r
  show ?thesis
    by (simp add: capitalizePlanName_def toUpperCase_def upper_ascii_def)
qed

section \<open>The invocation\<close>






end
